theory Spec2Isabelle
  imports Complex_Main
begin

section \<open>JavaScript values that reach the task-creation handler\<close>

text \<open>
  The handler of \<^verbatim>\<open>lambda/tests/unit/create-task.test.js\<close> works on what
  \<^verbatim>\<open>JSON.parse\<close> returns. A parsed value is \<^verbatim>\<open>null\<close>, a boolean, a number, a string,
  an array or an object. An object is kept as the list of its own properties in insertion
  order; the keys of a JavaScript object are pairwise distinct. (JavaScript enumerates
  keys that look like array indices before the others; no request below has such a key,
  and the general theorems speak of the value under a key, not of the order.) Numbers are
  only ever tested for being zero, so a number is kept as the rational it denotes.
\<close>

datatype json =
    JNull
  | JBool bool
  | JNum rat
  | JStr string
  | JArr "json list"
  | JObj "(string \<times> json) list"

type_synonym props = "(string \<times> json) list"

text \<open>
  JavaScript's \<^verbatim>\<open>ToBoolean\<close>, which \<^verbatim>\<open>!x\<close> applies: \<^verbatim>\<open>undefined\<close> (no value, \<open>None\<close>),
  \<^verbatim>\<open>null\<close>, \<^verbatim>\<open>false\<close>, \<^verbatim>\<open>0\<close> and the empty string are falsy; every array and every
  object is truthy, the empty array too.
\<close>

fun truthy :: "json option \<Rightarrow> bool" where
  "truthy None = False"
| "truthy (Some JNull) = False"
| "truthy (Some (JBool b)) = b"
| "truthy (Some (JNum n)) = (n \<noteq> 0)"
| "truthy (Some (JStr s)) = (s \<noteq> [])"
| "truthy (Some (JArr xs)) = True"
| "truthy (Some (JObj kvs)) = True"

text \<open>
  Writing a property, \<^verbatim>\<open>o[k] = v\<close>: an existing key keeps its place and takes the new
  value, a new key goes to the end.
\<close>

fun set_prop :: "string \<Rightarrow> json \<Rightarrow> props \<Rightarrow> props" where
  "set_prop k v [] = [(k, v)]"
| "set_prop k v ((k', v') # ps) =
     (if k' = k then (k, v) # ps else (k', v') # set_prop k v ps)"

text \<open>
  Object spread, \<^verbatim>\<open>{ ...target, ...source }\<close>: the own properties of the source are
  written into the target one after the other.
\<close>

fun spread :: "props \<Rightarrow> props \<Rightarrow> props" where
  "spread target [] = target"
| "spread target ((k, v) # source) = spread (set_prop k v target) source"

section \<open>The request\<close>

text \<open>
  \<^verbatim>\<open>event.body\<close> is text. The handler reads it through
  \<^verbatim>\<open>JSON.parse(event.body || '{}')\<close>, so the text matters only through what the
  built-in parser makes of it: \<open>NoBody\<close> is a falsy body (\<^verbatim>\<open>undefined\<close>, \<^verbatim>\<open>null\<close> or
  the empty string), in whose place \<^verbatim>\<open>'{}'\<close> is parsed; \<open>NotJson\<close> is text on which
  \<^verbatim>\<open>JSON.parse\<close> throws a \<^verbatim>\<open>SyntaxError\<close>; \<open>JsonText v\<close> is text that parses to \<open>v\<close>.
\<close>

datatype body_text = NoBody | NotJson | JsonText json

datatype error = SyntaxError | TypeError

fun JSON_parse :: "body_text \<Rightarrow> error + json" where
  "JSON_parse NoBody = Inr (JObj [])"
| "JSON_parse NotJson = Inl SyntaxError"
| "JSON_parse (JsonText v) = Inr v"

record authorizer =
  claims :: "props option"

record requestContext =
  authorizer :: "authorizer option"

record event =
  body :: body_text
  requestContext :: "requestContext option"

text \<open>
  \<^verbatim>\<open>event.requestContext?.authorizer?.claims?.['custom:role']\<close>: each \<^verbatim>\<open>?.\<close> yields
  \<^verbatim>\<open>undefined\<close> when what stands before it is missing.
\<close>

definition role :: "event \<Rightarrow> json option" where
  "role ev =
     (case requestContext ev of
        None \<Rightarrow> None
      | Some rc \<Rightarrow>
          (case authorizer rc of
             None \<Rightarrow> None
           | Some au \<Rightarrow>
               (case claims au of
                  None \<Rightarrow> None
                | Some cl \<Rightarrow> map_of cl ''custom:role'')))"

section \<open>The mocked AWS clients\<close>

text \<open>
  The test file replaces the DynamoDB document client and the SES client by
  \<^verbatim>\<open>jest.fn()\<close> doubles. A double records the argument of every call
  (\<^verbatim>\<open>mock.calls\<close>) and is told what the promise of a call settles to: values queued by
  \<^verbatim>\<open>mockResolvedValueOnce\<close> first, then the value of \<^verbatim>\<open>mockResolvedValue\<close> or
  \<^verbatim>\<open>mockRejectedValue\<close>.
\<close>

datatype settled = Resolves json | Rejects string

record mock_fn =
  calls :: "json list"
  once :: "settled list"
  always :: "settled option"

record aws =
  dynamo_put :: mock_fn
  dynamo_get :: mock_fn
  ses_sendEmail :: mock_fn

section \<open>The handler\<close>

record response =
  statusCode :: nat
  body :: json

text \<open>
  The body of a response is the value handed to \<^verbatim>\<open>JSON.stringify\<close>.
  \<^verbatim>\<open>{ message: m }\<close>:
\<close>

definition message :: "string \<Rightarrow> json" where
  "message m = JObj [(''message'', JStr m)]"

text \<open>
  Line 24, \<^verbatim>\<open>{ taskId: 'test-123', ...body, status: 'To Do' }\<close>. The list gives the
  value under every key of the task; its order is the order of enumeration only when no
  key of the payload looks like an array index.
\<close>

definition task :: "props \<Rightarrow> props" where
  "task b = set_prop ''status'' (JStr ''To Do'') (spread [(''taskId'', JStr ''test-123'')] b)"

text \<open>
  The handler, lines 11 to 26, statement by statement. The file introduces it as a
  "mock handler for demonstration"; it is the handler every unit test calls. It is an
  \<^verbatim>\<open>async\<close> function:
  \<open>Inl\<close> is a rejected promise (an exception thrown inside), \<open>Inr\<close> the response it
  resolves to. The AWS doubles are in its scope, so their state is threaded through; no
  statement of the handler calls them.

  \<^item> \<^verbatim>\<open>JSON.parse\<close> runs first and may throw.
  \<^item> \<^verbatim>\<open>role !== 'admin'\<close> gives 403.
  \<^item> \<^verbatim>\<open>!body.title || !body.assignedTo\<close> gives 400; \<^verbatim>\<open>||\<close> reads the second property
    only when the first is truthy. Reading a property of \<^verbatim>\<open>null\<close> throws a
    \<^verbatim>\<open>TypeError\<close>. A boolean, a number, a string or an array has no property called
    \<^verbatim>\<open>title\<close>, so for these the first test already gives 400.
  \<^item> Otherwise the body is an object and the task is built from it.
\<close>

definition handler :: "event \<Rightarrow> aws \<Rightarrow> (error + response) \<times> aws" where
  "handler ev a =
     (case JSON_parse (event.body ev) of
        Inl e \<Rightarrow> (Inl e, a)
      | Inr b \<Rightarrow>
          if role ev \<noteq> Some (JStr ''admin'') then
            (Inr \<lparr>statusCode = 403, body = message ''Only admins can create tasks''\<rparr>, a)
          else
            (case b of
               JNull \<Rightarrow> (Inl TypeError, a)
             | JObj kvs \<Rightarrow>
                 if \<not> truthy (map_of kvs ''title'') then
                   (Inr \<lparr>statusCode = 400, body = message ''Missing required fields''\<rparr>, a)
                 else if \<not> truthy (map_of kvs ''assignedTo'') then
                   (Inr \<lparr>statusCode = 400, body = message ''Missing required fields''\<rparr>, a)
                 else
                   (Inr \<lparr>statusCode = 201, body = JObj [(''task'', JObj (task kvs))]\<rparr>, a)
             | _ \<Rightarrow>
                 (Inr \<lparr>statusCode = 400, body = message ''Missing required fields''\<rparr>, a)))"

section \<open>Reading a result, as the tests do\<close>

text \<open>
  Reading a property of a parsed value that is not \<^verbatim>\<open>null\<close>: an object yields its own
  property, anything else has none of the names read here.
\<close>

definition property :: "json \<Rightarrow> string \<Rightarrow> json option" where
  "property v k = (case v of JObj kvs \<Rightarrow> map_of kvs k | _ \<Rightarrow> None)"

text \<open>\<^verbatim>\<open>result.statusCode\<close> of a handler that returned.\<close>

definition statusCode_of :: "error + response \<Rightarrow> nat option" where
  "statusCode_of result = (case result of Inl e \<Rightarrow> None | Inr r \<Rightarrow> Some (statusCode r))"

text \<open>\<^verbatim>\<open>JSON.parse(result.body).task\<close> and \<^verbatim>\<open>JSON.parse(result.body).task[k]\<close>.\<close>

definition task_of :: "error + response \<Rightarrow> props option" where
  "task_of result =
     (case result of
        Inl e \<Rightarrow> None
      | Inr r \<Rightarrow>
          (case property (response.body r) ''task'' of
             Some (JObj t) \<Rightarrow> Some t
           | _ \<Rightarrow> None))"

definition task_field :: "error + response \<Rightarrow> string \<Rightarrow> json option" where
  "task_field result k = (case task_of result of None \<Rightarrow> None | Some t \<Rightarrow> map_of t k)"

text \<open>
  \<^verbatim>\<open>expect(s).toContain(t)\<close> on strings: \<open>t\<close> occurs in \<open>s\<close> as a contiguous piece.
\<close>

fun str_includes :: "string \<Rightarrow> string \<Rightarrow> bool" where
  "str_includes [] t = (t = [])"
| "str_includes (c # cs) t = (if take (length t) (c # cs) = t then True else str_includes cs t)"

section \<open>The checks of the integration test file\<close>

text \<open>
  \<^verbatim>\<open>lambda/tests/integration/api.test.js\<close>, test 7: the priority check. Its argument is
  any JavaScript value, \<open>None\<close> standing for \<^verbatim>\<open>undefined\<close>.
\<close>

definition validPriorities :: "string list" where
  "validPriorities = [''low'', ''normal'', ''high'', ''urgent'']"

definition mockValidatePriority :: "json option \<Rightarrow> json" where
  "mockValidatePriority priority =
     (if priority \<notin> set (map (\<lambda>s. Some (JStr s)) validPriorities) then
        JObj [(''statusCode'', JNum 400), (''message'', JStr ''Invalid priority'')]
      else JObj [(''statusCode'', JNum 200), (''valid'', JBool True)])"

section \<open>The requests and doubles of the unit tests\<close>

text \<open>
  Every test builds its body with \<^verbatim>\<open>JSON.stringify\<close>, so the text parses back to the
  object it was built from. \<open>beforeEach_aws\<close> is the state the doubles are reset to before
  each test.
\<close>

text \<open>The identity claims of the admin and of the member of the unit tests.\<close>

definition admin_context :: "requestContext option" where
  "admin_context =
     Some \<lparr>authorizer = Some \<lparr>claims = Some
       [(''sub'', JStr ''admin-123''),
        (''email'', JStr ''admin@amalitech.com''),
        (''custom:role'', JStr ''admin'')]\<rparr>\<rparr>"

definition member_context :: "requestContext option" where
  "member_context =
     Some \<lparr>authorizer = Some \<lparr>claims = Some
       [(''sub'', JStr ''member-123''),
        (''email'', JStr ''member@amalitechtraining.org''),
        (''custom:role'', JStr ''member'')]\<rparr>\<rparr>"

text \<open>Test "should create task successfully with valid data".\<close>

definition create_event :: event where
  "create_event =
     \<lparr>event.body = JsonText (JObj
        [(''title'', JStr ''Test Task''),
         (''description'', JStr ''Test Description''),
         (''priority'', JStr ''normal''),
         (''dueDate'', JStr ''2026-03-15''),
         (''assignedTo'', JArr [JStr ''user-123''])]),
      requestContext = admin_context\<rparr>"

text \<open>The directory entry every lookup resolves to after \<^verbatim>\<open>beforeEach\<close>.\<close>

definition user_123 :: json where
  "user_123 =
     JObj [(''Item'', JObj
       [(''userId'', JStr ''user-123''),
        (''email'', JStr ''member@amalitechtraining.org''),
        (''role'', JStr ''member''),
        (''status'', JStr ''active'')])]"

definition beforeEach_aws :: aws where
  "beforeEach_aws =
     \<lparr>dynamo_put = \<lparr>calls = [], once = [], always = Some (Resolves (JObj []))\<rparr>,
      dynamo_get = \<lparr>calls = [], once = [], always = Some (Resolves user_123)\<rparr>,
      ses_sendEmail =
        \<lparr>calls = [], once = [],
         always = Some (Resolves (JObj [(''MessageId'', JStr ''msg-123'')]))\<rparr>\<rparr>"


text \<open>Test "should reject task creation by non-admin users".\<close>

definition member_event :: event where
  "member_event =
     \<lparr>event.body = JsonText (JObj
        [(''title'', JStr ''Test Task''),
         (''description'', JStr ''Test Description''),
         (''priority'', JStr ''normal''),
         (''assignedTo'', JArr [JStr ''user-123''])]),
      requestContext = member_context\<rparr>"

text \<open>A member whose body is not JSON, such as the text \<^verbatim>\<open>{title\<close>.\<close>

definition malformed_event :: event where
  "malformed_event = \<lparr>event.body = NotJson, requestContext = member_context\<rparr>"

text \<open>Test "should validate required fields".\<close>

definition missing_fields_event :: event where
  "missing_fields_event =
     \<lparr>event.body = JsonText (JObj [(''description'', JStr ''Test Description'')]),
      requestContext = admin_context\<rparr>"

text \<open>An admin asking for a priority that is none of the four, an admin assigning nobody,
  an admin whose body is the text \<^verbatim>\<open>null\<close>, and an admin whose body is not JSON.\<close>

definition null_body_event :: event where
  "null_body_event = \<lparr>event.body = JsonText JNull, requestContext = admin_context\<rparr>"

definition admin_malformed_event :: event where
  "admin_malformed_event = \<lparr>event.body = NotJson, requestContext = admin_context\<rparr>"

definition critical_event :: event where
  "critical_event =
     \<lparr>event.body = JsonText (JObj
        [(''title'', JStr ''Test Task''),
         (''priority'', JStr ''critical''),
         (''assignedTo'', JArr [JStr ''user-123''])]),
      requestContext = admin_context\<rparr>"

definition nobody_assigned_event :: event where
  "nobody_assigned_event =
     \<lparr>event.body = JsonText (JObj
        [(''title'', JStr ''Test Task''),
         (''priority'', JStr ''normal''),
         (''assignedTo'', JArr [])]),
      requestContext = admin_context\<rparr>"

text \<open>Test "should send urgent email notification for high priority tasks".\<close>

definition urgent_event :: event where
  "urgent_event =
     \<lparr>event.body = JsonText (JObj
        [(''title'', JStr ''Urgent Task''),
         (''description'', JStr ''Critical bug fix needed''),
         (''priority'', JStr ''urgent''),
         (''dueDate'', JStr ''2026-03-12''),
         (''assignedTo'', JArr [JStr ''user-123''])]),
      requestContext = admin_context\<rparr>"

text \<open>Test "should handle multiple assignees": two lookups are queued, one per user.\<close>

definition multiple_event :: event where
  "multiple_event =
     \<lparr>event.body = JsonText (JObj
        [(''title'', JStr ''Multi-User Task''),
         (''description'', JStr ''Collaborative task''),
         (''priority'', JStr ''normal''),
         (''assignedTo'', JArr [JStr ''user-1'', JStr ''user-2''])]),
      requestContext = admin_context\<rparr>"

definition multiple_aws :: aws where
  "multiple_aws =
     beforeEach_aws\<lparr>dynamo_get :=
       \<lparr>calls = [],
        once =
          [Resolves (JObj [(''Item'', JObj
             [(''userId'', JStr ''user-1''),
              (''email'', JStr ''user1@amalitechtraining.org''),
              (''status'', JStr ''active'')])]),
           Resolves (JObj [(''Item'', JObj
             [(''userId'', JStr ''user-2''),
              (''email'', JStr ''user2@amalitechtraining.org''),
              (''status'', JStr ''active'')])])],
        always = None\<rparr>\<rparr>"

text \<open>An admin naming the same user twice.\<close>

definition duplicates_event :: event where
  "duplicates_event =
     \<lparr>event.body = JsonText (JObj
        [(''title'', JStr ''Multi-User Task''),
         (''priority'', JStr ''normal''),
         (''assignedTo'', JArr [JStr ''user1'', JStr ''user2'', JStr ''user1''])]),
      requestContext = admin_context\<rparr>"

text \<open>Test "should reject tasks with invalid assignees": every lookup resolves to an empty object.\<close>

definition invalid_assignee_event :: event where
  "invalid_assignee_event =
     \<lparr>event.body = JsonText (JObj
        [(''title'', JStr ''Invalid Task''),
         (''description'', JStr ''Task with invalid user''),
         (''priority'', JStr ''normal''),
         (''assignedTo'', JArr [JStr ''invalid-user''])]),
      requestContext = admin_context\<rparr>"

definition invalid_assignee_aws :: aws where
  "invalid_assignee_aws =
     beforeEach_aws\<lparr>dynamo_get :=
       \<lparr>calls = [], once = [], always = Some (Resolves (JObj []))\<rparr>\<rparr>"

text \<open>Test "should handle DynamoDB errors gracefully": the store rejects.\<close>

definition dynamo_error_event :: event where
  "dynamo_error_event =
     \<lparr>event.body = JsonText (JObj
        [(''title'', JStr ''Test Task''),
         (''description'', JStr ''Test Description''),
         (''priority'', JStr ''normal''),
         (''assignedTo'', JArr [JStr ''user-123''])]),
      requestContext = admin_context\<rparr>"

definition dynamo_error_aws :: aws where
  "dynamo_error_aws =
     beforeEach_aws\<lparr>dynamo_put :=
       \<lparr>calls = [], once = [], always = Some (Rejects ''DynamoDB connection failed'')\<rparr>\<rparr>"

text \<open>Test "should sanitize task input to prevent injection".\<close>

definition sanitize_event :: event where
  \<open>sanitize_event =
     \<lparr>event.body = JsonText (JObj
        [(''title'', JStr ''<script>alert("xss")</script>Task''),
         (''description'', JStr ''Normal description''),
         (''priority'', JStr ''normal''),
         (''assignedTo'', JArr [JStr ''user-123''])]),
      requestContext = admin_context\<rparr>\<close>


section \<open>What the handler does for every request\<close>

text \<open>The handler calls none of the AWS doubles: their state comes back as it went in.\<close>

lemma handler_calls_nothing: "snd (handler ev a) = a"
  by (simp add: handler_def split: sum.split json.split)

text \<open>A task is created exactly for an admin whose body is an object with a truthy title
  and a truthy \<^verbatim>\<open>assignedTo\<close>.\<close>

lemma created_iff:
  "statusCode_of (fst (handler ev a)) = Some 201 \<longleftrightarrow>
     role ev = Some (JStr ''admin'') \<and>
     (\<exists>kvs. JSON_parse (event.body ev) = Inr (JObj kvs) \<and>
        truthy (map_of kvs ''title'') \<and> truthy (map_of kvs ''assignedTo''))"
  by (auto simp: handler_def statusCode_of_def split: sum.splits json.splits)

subsection \<open>Properties of the task object\<close>




section \<open>The claims\<close>

subsection \<open>C1: a caller who is not an admin\<close>

text \<open>
  Claim C1, as the handler has it: for every request whose body is absent or is
  well-formed JSON, and whose role claim is not the string \<^verbatim>\<open>admin\<close> (a missing claim
  included), the handler returns 403 with the message "Only admins can create tasks",
  whatever the payload holds, and the recorded calls of the persistence double and of the
  email double are what they were before.
\<close>

theorem non_admin_forbidden:
  assumes "event.body ev \<noteq> NotJson"
    and "role ev \<noteq> Some (JStr ''admin'')"
  shows "handler ev a =
           (Inr \<lparr>statusCode = 403, body = message ''Only admins can create tasks''\<rparr>, a)
         \<and> calls (dynamo_put (snd (handler ev a))) = calls (dynamo_put a)
         \<and> calls (ses_sendEmail (snd (handler ev a))) = calls (ses_sendEmail a)"
proof -
  from assms(1) obtain b where "JSON_parse (event.body ev) = Inr b"
    by (cases "event.body ev") auto
  with assms(2) show ?thesis
    by (simp add: handler_def)
qed

text \<open>The request of the test "should reject task creation by non-admin users".\<close>

theorem non_admin_forbidden_witness:
  "event.body member_event \<noteq> NotJson
   \<and> role member_event \<noteq> Some (JStr ''admin'')
   \<and> handler member_event beforeEach_aws =
       (Inr \<lparr>statusCode = 403, body = message ''Only admins can create tasks''\<rparr>,
        beforeEach_aws)
   \<and> calls (dynamo_put (snd (handler member_event beforeEach_aws))) = []
   \<and> calls (ses_sendEmail (snd (handler member_event beforeEach_aws))) = []"
proof -
  have b: "event.body member_event \<noteq> NotJson"
    by (simp add: member_event_def)
  have r: "role member_event \<noteq> Some (JStr ''admin'')"
    by (simp add: role_def member_event_def member_context_def)
  have c: "calls (dynamo_put beforeEach_aws) = []" "calls (ses_sendEmail beforeEach_aws) = []"
    by (simp_all add: beforeEach_aws_def)
  from non_admin_forbidden [OF b r, of beforeEach_aws] b r c show ?thesis
    by simp
qed

text \<open>
  Without the condition on the body the claim fails: the body is parsed on the first line
  of the handler, before the role is read, so a member who sends text that is not JSON
  gets an exception and no 403.
\<close>

theorem non_admin_malformed_body_throws:
  "role malformed_event \<noteq> Some (JStr ''admin'')
   \<and> handler malformed_event beforeEach_aws = (Inl SyntaxError, beforeEach_aws)"
  by (simp add: handler_def role_def malformed_event_def member_context_def)

subsection \<open>C2: missing fields and the priority\<close>

text \<open>
  Claim C2, as the code has it: for every request by an admin whose body is absent or
  parses to a value other than \<^verbatim>\<open>null\<close>, and whose \<^verbatim>\<open>title\<close> or \<^verbatim>\<open>assignedTo\<close> is
  missing or falsy, the handler returns 400 with the message "Missing required fields"
  and the recorded persistence calls are what they were before; and the priority check
  \<^verbatim>\<open>mockValidatePriority\<close> answers 400 "Invalid priority" to every value that is not one
  of low, normal, high, urgent.
\<close>

theorem missing_fields_rejected:
  assumes "role ev = Some (JStr ''admin'')"
    and "JSON_parse (event.body ev) = Inr b"
    and "b \<noteq> JNull"
    and "\<not> truthy (property b ''title'') \<or> \<not> truthy (property b ''assignedTo'')"
  shows "handler ev a =
           (Inr \<lparr>statusCode = 400, body = message ''Missing required fields''\<rparr>, a)
         \<and> calls (dynamo_put (snd (handler ev a))) = calls (dynamo_put a)
         \<and> (p \<notin> set (map (\<lambda>s. Some (JStr s)) validPriorities) \<longrightarrow>
              mockValidatePriority p =
                JObj [(''statusCode'', JNum 400), (''message'', JStr ''Invalid priority'')])"
  using assms
  by (cases b) (auto simp: handler_def property_def mockValidatePriority_def)

text \<open>The request of the test "should validate required fields", and the priority
  \<^verbatim>\<open>critical\<close> of the integration test.\<close>

theorem missing_fields_rejected_witness:
  "role missing_fields_event = Some (JStr ''admin'')
   \<and> JSON_parse (event.body missing_fields_event) =
       Inr (JObj [(''description'', JStr ''Test Description'')])
   \<and> \<not> truthy (property (JObj [(''description'', JStr ''Test Description'')]) ''title'')
   \<and> handler missing_fields_event beforeEach_aws =
       (Inr \<lparr>statusCode = 400, body = message ''Missing required fields''\<rparr>, beforeEach_aws)
   \<and> calls (dynamo_put (snd (handler missing_fields_event beforeEach_aws))) = []
   \<and> Some (JStr ''critical'') \<notin> set (map (\<lambda>s. Some (JStr s)) validPriorities)
   \<and> mockValidatePriority (Some (JStr ''critical'')) =
       JObj [(''statusCode'', JNum 400), (''message'', JStr ''Invalid priority'')]"
proof -
  let ?b = "JObj [(''description'', JStr ''Test Description'')]"
  have r: "role missing_fields_event = Some (JStr ''admin'')"
    by (simp add: role_def missing_fields_event_def admin_context_def)
  have p: "JSON_parse (event.body missing_fields_event) = Inr ?b"
    by (simp add: missing_fields_event_def)
  have n: "?b \<noteq> JNull"
    by simp
  have t: "\<not> truthy (property ?b ''title'')"
    by (simp add: property_def)
  then have d: "\<not> truthy (property ?b ''title'') \<or> \<not> truthy (property ?b ''assignedTo'')"
    by simp
  have c: "calls (dynamo_put beforeEach_aws) = []"
    by (simp add: beforeEach_aws_def)
  have v: "Some (JStr ''critical'') \<notin> set (map (\<lambda>s. Some (JStr s)) validPriorities)"
    by (simp add: validPriorities_def)
  from missing_fields_rejected [OF r p n d, of beforeEach_aws "Some (JStr ''critical'')"] r p t c v
  show ?thesis
    by simp
qed

text \<open>
  The claim as written fails on the handler: it never reads \<^verbatim>\<open>priority\<close>, and an empty
  array is truthy. A payload with the priority \<^verbatim>\<open>critical\<close>, which the priority check
  refuses, and a payload that assigns nobody both come back with 201. A body that is the
  text \<^verbatim>\<open>null\<close> or is not JSON has no title either, and the handler throws.
\<close>

theorem invalid_priority_and_empty_assignees_accepted:
  "mockValidatePriority (Some (JStr ''critical'')) =
     JObj [(''statusCode'', JNum 400), (''message'', JStr ''Invalid priority'')]
   \<and> handler critical_event beforeEach_aws =
       (Inr \<lparr>statusCode = 201, body = JObj [(''task'', JObj
          [(''taskId'', JStr ''test-123''),
           (''title'', JStr ''Test Task''),
           (''priority'', JStr ''critical''),
           (''assignedTo'', JArr [JStr ''user-123'']),
           (''status'', JStr ''To Do'')])]\<rparr>,
        beforeEach_aws)
   \<and> handler nobody_assigned_event beforeEach_aws =
       (Inr \<lparr>statusCode = 201, body = JObj [(''task'', JObj
          [(''taskId'', JStr ''test-123''),
           (''title'', JStr ''Test Task''),
           (''priority'', JStr ''normal''),
           (''assignedTo'', JArr []),
           (''status'', JStr ''To Do'')])]\<rparr>,
        beforeEach_aws)
   \<and> handler null_body_event beforeEach_aws = (Inl TypeError, beforeEach_aws)
   \<and> handler admin_malformed_event beforeEach_aws = (Inl SyntaxError, beforeEach_aws)"
  by (simp add: handler_def role_def task_def critical_event_def nobody_assigned_event_def
      null_body_event_def admin_malformed_event_def admin_context_def
      mockValidatePriority_def validPriorities_def)

subsection \<open>C3: an assignee the directory does not know\<close>

text \<open>
  Claim C3 asks for 400 "Invalid assignees" when an assignee does not resolve. On the
  request and the directory double of the test "should reject tasks with invalid
  assignees" (every lookup resolves to an empty object), the handler returns 201 with the
  task, and the directory was never asked.
\<close>

theorem unresolved_assignee_is_accepted:
  "handler invalid_assignee_event invalid_assignee_aws =
     (Inr \<lparr>statusCode = 201, body = JObj [(''task'', JObj
        [(''taskId'', JStr ''test-123''),
         (''title'', JStr ''Invalid Task''),
         (''description'', JStr ''Task with invalid user''),
         (''priority'', JStr ''normal''),
         (''assignedTo'', JArr [JStr ''invalid-user'']),
         (''status'', JStr ''To Do'')])]\<rparr>,
      invalid_assignee_aws)
   \<and> calls (dynamo_get (snd (handler invalid_assignee_event invalid_assignee_aws))) = []"
  by (simp add: handler_def role_def task_def invalid_assignee_event_def admin_context_def
      invalid_assignee_aws_def beforeEach_aws_def)

subsection \<open>C4: a valid creation\<close>

text \<open>
  Claim C4 asks for 201, the task with status "To Do", one persistence call and one email
  per assignee. On the request of the test "should create task successfully with valid
  data" the handler returns 201 and the task with status "To Do", but the persistence
  double and the email double have recorded no call.
\<close>

theorem creation_without_put_or_email:
  "handler create_event beforeEach_aws =
     (Inr \<lparr>statusCode = 201, body = JObj [(''task'', JObj
        [(''taskId'', JStr ''test-123''),
         (''title'', JStr ''Test Task''),
         (''description'', JStr ''Test Description''),
         (''priority'', JStr ''normal''),
         (''dueDate'', JStr ''2026-03-15''),
         (''assignedTo'', JArr [JStr ''user-123'']),
         (''status'', JStr ''To Do'')])]\<rparr>,
      beforeEach_aws)
   \<and> calls (dynamo_put (snd (handler create_event beforeEach_aws))) = []
   \<and> calls (ses_sendEmail (snd (handler create_event beforeEach_aws))) = []"
  by (simp add: handler_def role_def task_def create_event_def admin_context_def
      beforeEach_aws_def)

subsection \<open>C5: several assignees\<close>

text \<open>
  Claim C5 asks for one lookup and one email per distinct assignee. On the request of the
  test "should handle multiple assignees" the handler returns 201 with no lookup and no
  email recorded; on a payload that names user1, user2, user1 the returned task still
  names all three, and again nothing is looked up or sent.
\<close>

theorem multiple_assignees_without_lookup_or_email:
  "fst (handler multiple_event multiple_aws) =
     Inr \<lparr>statusCode = 201, body = JObj [(''task'', JObj
        [(''taskId'', JStr ''test-123''),
         (''title'', JStr ''Multi-User Task''),
         (''description'', JStr ''Collaborative task''),
         (''priority'', JStr ''normal''),
         (''assignedTo'', JArr [JStr ''user-1'', JStr ''user-2'']),
         (''status'', JStr ''To Do'')])]\<rparr>
   \<and> calls (dynamo_get (snd (handler multiple_event multiple_aws))) = []
   \<and> calls (ses_sendEmail (snd (handler multiple_event multiple_aws))) = []
   \<and> task_field (fst (handler duplicates_event beforeEach_aws)) ''assignedTo'' =
       Some (JArr [JStr ''user1'', JStr ''user2'', JStr ''user1''])
   \<and> calls (dynamo_get (snd (handler duplicates_event beforeEach_aws))) = []
   \<and> calls (ses_sendEmail (snd (handler duplicates_event beforeEach_aws))) = []"
  by (simp add: handler_def role_def task_def multiple_event_def duplicates_event_def
      admin_context_def multiple_aws_def beforeEach_aws_def task_field_def task_of_def
      property_def)

subsection \<open>C6: markup in the title\<close>

text \<open>
  Claim C6 asks for script tags to be stripped from the title before the task is stored.
  On the request of the test "should sanitize task input to prevent injection" the
  handler returns 201, the title of the task is the title that was sent, script tag
  included, and nothing was stored.
\<close>

theorem script_tag_kept_in_title:
  \<open>task_field (fst (handler sanitize_event beforeEach_aws)) ''title'' =
     Some (JStr ''<script>alert("xss")</script>Task'')
   \<and> str_includes ''<script>alert("xss")</script>Task'' ''<script>''
   \<and> statusCode_of (fst (handler sanitize_event beforeEach_aws)) = Some 201
   \<and> calls (dynamo_put (snd (handler sanitize_event beforeEach_aws))) = []\<close>
  by (simp add: handler_def role_def task_def sanitize_event_def admin_context_def
      beforeEach_aws_def task_field_def task_of_def property_def statusCode_of_def)

subsection \<open>C7: a failing store\<close>

text \<open>
  Claim C7 asks for 500 "Internal server error" when the store fails. On the request of
  the test "should handle DynamoDB errors gracefully", with the persistence double set to
  reject, the handler returns 201 with the task: the store is never called, so its
  failure is never seen.
\<close>

theorem rejected_put_still_created:
  "always (dynamo_put dynamo_error_aws) = Some (Rejects ''DynamoDB connection failed'')
   \<and> handler dynamo_error_event dynamo_error_aws =
       (Inr \<lparr>statusCode = 201, body = JObj [(''task'', JObj
          [(''taskId'', JStr ''test-123''),
           (''title'', JStr ''Test Task''),
           (''description'', JStr ''Test Description''),
           (''priority'', JStr ''normal''),
           (''assignedTo'', JArr [JStr ''user-123'']),
           (''status'', JStr ''To Do'')])]\<rparr>,
        dynamo_error_aws)
   \<and> calls (dynamo_put (snd (handler dynamo_error_event dynamo_error_aws))) = []"
  by (simp add: handler_def role_def task_def dynamo_error_event_def admin_context_def
      dynamo_error_aws_def beforeEach_aws_def)

subsection \<open>C8: the subject of an urgent task\<close>

text \<open>
  Claim C8 is about the subject of the email for an urgent task. On the request of the
  test "should send urgent email notification for high priority tasks" the handler
  returns 201 for the urgent task and the email double has recorded no call: there is no
  email, and so no subject.
\<close>

theorem urgent_task_sends_no_email:
  "statusCode_of (fst (handler urgent_event beforeEach_aws)) = Some 201
   \<and> task_field (fst (handler urgent_event beforeEach_aws)) ''priority'' = Some (JStr ''urgent'')
   \<and> calls (ses_sendEmail (snd (handler urgent_event beforeEach_aws))) = []"
  by (simp add: handler_def role_def task_def urgent_event_def admin_context_def
      beforeEach_aws_def task_field_def task_of_def property_def statusCode_of_def)

subsection \<open>C9: the identifier of a task\<close>




subsection \<open>C10: the payload is copied, the status is forced\<close>




end
